theory Spec2Isabelle
  imports Main "HOL-Library.Sublist"
begin

section \<open>The shader build driver \<open>compile_shaders.py\<close>\<close>

text \<open>
  The script takes shader paths on its command line. For every path that is a regular
  file it derives an output path, runs \<open>glslc\<close> on the pair and prints the outcome; a path
  that is no file is reported and skipped.

  Paths are lists of characters. Everything the script does to a path compares characters
  for equality and concatenates, so the string operations are stated for lists of any
  element type and used at \<^typ>\<open>string\<close>. What matters about a single character is
  only whether standard output can encode it: the characters with the eighth bit set
  stand for the characters outside ASCII.
\<close>

subsection \<open>Strings\<close>

text \<open>
  \<open>sub in s\<close>: some suffix of \<open>s\<close> starts with \<open>sub\<close>.
\<close>

fun str_contains :: "'a list \<Rightarrow> 'a list \<Rightarrow> bool" where
  "str_contains sub [] = (sub = [])"
| "str_contains sub (c # cs) = (prefix sub (c # cs) \<or> str_contains sub cs)"

text \<open>
  \<open>s.replace(old, new)\<close> with no count: scanning from the left, every occurrence of
  \<open>old\<close> that starts at or after the end of the previous replaced one is replaced by
  \<open>new\<close>. For an empty \<open>old\<close> Python puts \<open>new\<close> before every character and at the end.
\<close>

function str_replace :: "'a list \<Rightarrow> 'a list \<Rightarrow> 'a list \<Rightarrow> 'a list" where
  "str_replace old new [] = (if old = [] then new else [])"
| "str_replace old new (c # cs) =
     (if old = [] then new @ c # str_replace old new cs
      else if prefix old (c # cs) then new @ str_replace old new (drop (length old) (c # cs))
      else c # str_replace old new cs)"
  by pat_completeness auto
termination
  by (relation "measure (\<lambda>(old, new, s). length s)") auto

text \<open>
  The spec's wording of the substitution, for comparison with the code: only the first
  occurrence of \<open>old\<close> is replaced (Python's \<open>s.replace(old, new, 1)\<close> for a non-empty
  \<open>old\<close>).
\<close>

fun spec_replace_first :: "'a list \<Rightarrow> 'a list \<Rightarrow> 'a list \<Rightarrow> 'a list" where
  "spec_replace_first old new [] = (if old = [] then new else [])"
| "spec_replace_first old new (c # cs) =
     (if prefix old (c # cs) then new @ drop (length old) (c # cs)
      else c # spec_replace_first old new cs)"

definition spec_output_path :: "string \<Rightarrow> string" where
  "spec_output_path shader_path = spec_replace_first ''shaders'' ''bin'' shader_path @ ''.spv''"

subsection \<open>The platform: file system, child processes, exceptions\<close>

text \<open>
  What starting a child process and waiting for it yields: its return code, or the
  \<open>OSError\<close> that \<open>Popen\<close> raised because the program could not be started.
\<close>

datatype proc_result = Exited int | StartFailed string

datatype exn =
    CalledProcessError int "string list"
  | OSError string
  | SystemExit int
  | UnicodeEncodeError string

text \<open>
  What the script does to the outside, in order: an \<open>os.path.isfile\<close> test with its
  answer, an attempt to run a command with what came of it, a line printed to standard
  output, a call of \<open>print\<close> that raised and wrote nothing.
\<close>

datatype event =
    IsFile string bool
  | Run "string list" proc_result
  | Print string
  | PrintRaised string

text \<open>
  The library and operating system under the script, over a state \<open>'w\<close> of the outside
  world: \<open>os.path.isfile\<close> reads it; running a child process may change it in any way;
  \<open>str_exn\<close> is \<open>str(e)\<close> of an exception; \<open>stdout_encodes\<close> says which characters
  outside ASCII the encoding of standard output has.
\<close>

record 'w platform =
  os_path_isfile :: "'w \<Rightarrow> string \<Rightarrow> bool"
  popen_wait :: "'w \<Rightarrow> string list \<Rightarrow> proc_result \<times> 'w"
  str_exn :: "exn \<Rightarrow> string"
  stdout_encodes :: "char \<Rightarrow> bool"

text \<open>
  \<open>print(s)\<close>: the text is encoded as a whole before anything is written. ASCII is in
  every encoding; a character outside ASCII that the encoding of standard output lacks
  makes \<open>print\<close> raise \<open>UnicodeEncodeError\<close>.
\<close>

definition encodable :: "'w platform \<Rightarrow> string \<Rightarrow> bool" where
  "encodable P s = list_all (\<lambda>c. if digit7 c then stdout_encodes P c else True) s"

definition py_print :: "'w platform \<Rightarrow> string \<Rightarrow> (exn + unit) \<times> event list" where
  "py_print P s =
     (if encodable P s then (Inr (), [Print s])
      else (Inl (UnicodeEncodeError s), [PrintRaised s]))"

text \<open>
  \<open>subprocess.run(command, check=check)\<close>: an error at start propagates; with \<open>check\<close> a
  non-zero return code raises \<open>CalledProcessError\<close>.
\<close>

definition subprocess_run ::
    "'w platform \<Rightarrow> 'w \<Rightarrow> string list \<Rightarrow> bool \<Rightarrow> (exn + unit) \<times> event list \<times> 'w" where
  "subprocess_run P w command check =
     (case popen_wait P w command of
        (StartFailed detail, w') \<Rightarrow> (Inl (OSError detail), [Run command (StartFailed detail)], w')
      | (Exited retcode, w') \<Rightarrow>
          (if check \<and> retcode \<noteq> 0 then Inl (CalledProcessError retcode command) else Inr (),
           [Run command (Exited retcode)], w'))"

subsection \<open>The script\<close>

definition output_path :: "string \<Rightarrow> string" where
  "output_path shader_path = str_replace ''shaders'' ''bin'' shader_path @ ''.spv''"

definition command :: "string \<Rightarrow> string list" where
  "command shader_path = [''glslc'', shader_path, ''-o'', output_path shader_path]"

text \<open>
  \<open>compile_shader\<close>: the \<open>try\<close> catches \<open>CalledProcessError\<close> only; any other exception
  leaves the function, from \<open>subprocess.run\<close> or from either \<open>print\<close>.
\<close>

definition compile_shader ::
    "'w platform \<Rightarrow> 'w \<Rightarrow> string \<Rightarrow> (exn + unit) \<times> event list \<times> 'w" where
  "compile_shader P w shader_path =
     (case subprocess_run P w (command shader_path) True of
        (Inr u, tr, w') \<Rightarrow>
          (case py_print P (''Compiled '' @ shader_path @ '' to '' @ output_path shader_path) of
             (r, tr') \<Rightarrow> (r, tr @ tr', w'))
      | (Inl (CalledProcessError rc cmd), tr, w') \<Rightarrow>
          (case py_print P (''Error compiling '' @ shader_path @ '': ''
                            @ str_exn P (CalledProcessError rc cmd)) of
             (r, tr') \<Rightarrow> (r, tr @ tr', w'))
      | (Inl e, tr, w') \<Rightarrow> (Inl e, tr, w'))"

text \<open>The loop over \<open>sys.argv[1:]\<close>; an exception ends it.\<close>

fun for_loop :: "'w platform \<Rightarrow> 'w \<Rightarrow> string list \<Rightarrow> (exn + unit) \<times> event list \<times> 'w" where
  "for_loop P w [] = (Inr (), [], w)"
| "for_loop P w (shader # rest) =
     (if os_path_isfile P w shader then
        (case compile_shader P w shader of
           (Inl e, tr, w') \<Rightarrow> (Inl e, IsFile shader True # tr, w')
         | (Inr u, tr, w') \<Rightarrow>
             (case for_loop P w' rest of
                (r, tr', w'') \<Rightarrow> (r, IsFile shader True # tr @ tr', w'')))
      else
        (case py_print P (''File not found: '' @ shader) of
           (Inl e, tr) \<Rightarrow> (Inl e, IsFile shader False # tr, w)
         | (Inr u, tr) \<Rightarrow>
             (case for_loop P w rest of
                (r, tr', w') \<Rightarrow> (r, IsFile shader False # tr @ tr', w'))))"

definition usage :: string where
  "usage = ''Usage: compile_shaders.py <shader1> <shader2> ...''"

text \<open>The module body under \<open>__main__\<close>, on the whole of \<open>sys.argv\<close>.\<close>

definition main :: "'w platform \<Rightarrow> 'w \<Rightarrow> string list \<Rightarrow> (exn + unit) \<times> event list \<times> 'w" where
  "main P w argv =
     (if length argv < 2 then
        (case py_print P usage of
           (Inl e, tr) \<Rightarrow> (Inl e, tr, w)
         | (Inr u, tr) \<Rightarrow> (Inl (SystemExit 1), tr, w))
      else for_loop P w (drop 1 argv))"

text \<open>
  The exit status of the interpreter: 0 when the module body ends, the argument of
  \<open>sys.exit\<close>, 1 for an exception nobody caught.
\<close>

fun exit_status :: "exn + unit \<Rightarrow> int" where
  "exit_status (Inr u) = 0"
| "exit_status (Inl (SystemExit n)) = n"
| "exit_status (Inl e) = 1"

subsection \<open>Reading a run\<close>

abbreviation outcome :: "'a \<times> 'b \<times> 'c \<Rightarrow> 'a" where
  "outcome r \<equiv> fst r"

abbreviation trace :: "'a \<times> 'b \<times> 'c \<Rightarrow> 'b" where
  "trace r \<equiv> fst (snd r)"

fun runs :: "event list \<Rightarrow> string list list" where
  "runs [] = []"
| "runs (Run cmd r # tr) = cmd # runs tr"
| "runs (e # tr) = runs tr"

fun spawned :: "event list \<Rightarrow> string list list" where
  "spawned [] = []"
| "spawned (Run cmd (Exited rc) # tr) = cmd # spawned tr"
| "spawned (e # tr) = spawned tr"

fun tested :: "event list \<Rightarrow> string list" where
  "tested [] = []"
| "tested (IsFile p b # tr) = p # tested tr"
| "tested (e # tr) = tested tr"

fun found :: "event list \<Rightarrow> string list" where
  "found [] = []"
| "found (IsFile p True # tr) = p # found tr"
| "found (e # tr) = found tr"

fun printed :: "event list \<Rightarrow> string list" where
  "printed [] = []"
| "printed (Print s # tr) = s # printed tr"
| "printed (e # tr) = printed tr"

fun start_failure :: "event \<Rightarrow> bool" where
  "start_failure (Run cmd (StartFailed d)) = True"
| "start_failure e = False"

fun print_failure :: "event \<Rightarrow> bool" where
  "print_failure (PrintRaised s) = True"
| "print_failure e = False"

text \<open>
  A run that handles the paths one after the other and each of them completely, with the
  answers of the platform: the trace is, path by path, either the file test failing, as
  \<open>os.path.isfile\<close> says in the world of that moment, and the notice; or the file test
  succeeding, one finished run of the compiler on that path, with the return code the
  platform gives in that world, and the line reporting it. The next path is handled in
  the world the compiler left.
\<close>

fun sequential :: "'w platform \<Rightarrow> 'w \<Rightarrow> string list \<Rightarrow> event list \<Rightarrow> bool" where
  "sequential P w [] tr = (tr = [])"
| "sequential P w (p # ps) (IsFile q False # Print s # tr) =
     (q = p \<and> \<not> os_path_isfile P w p \<and> s = ''File not found: '' @ p
      \<and> sequential P w ps tr)"
| "sequential P w (p # ps) (IsFile q True # Run cmd (Exited rc) # Print s # tr) =
     (q = p \<and> os_path_isfile P w p \<and> cmd = [''glslc'', p, ''-o'', output_path p]
      \<and> fst (popen_wait P w cmd) = Exited rc
      \<and> s = (if rc = 0 then ''Compiled '' @ p @ '' to '' @ output_path p
               else ''Error compiling '' @ p @ '': '' @ str_exn P (CalledProcessError rc cmd))
      \<and> sequential P (snd (popen_wait P w cmd)) ps tr)"
| "sequential P w ps tr = False"

text \<open>
  The paths that are regular files when their turn comes, in a run where every compiler
  process is started and returns: each path is tested in the world left by the compiler
  runs on the existing paths before it.
\<close>

fun existing_paths :: "'w platform \<Rightarrow> 'w \<Rightarrow> string list \<Rightarrow> string list" where
  "existing_paths P w [] = []"
| "existing_paths P w (p # ps) =
     (if os_path_isfile P w p
      then p # existing_paths P (snd (popen_wait P w [''glslc'', p, ''-o'', output_path p])) ps
      else existing_paths P w ps)"

subsection \<open>Two concrete platforms\<close>

text \<open>
  The world is the list of regular files on disk, and standard output encodes ASCII
  only. On \<open>glslc_platform bad\<close> the compiler is installed: it returns 1 on the inputs
  listed in \<open>bad\<close>, and otherwise writes its output file and returns 0. On
  \<open>no_glslc_platform\<close> no program of that name can be started.
\<close>

definition glslc_platform :: "string list \<Rightarrow> string list platform" where
  "glslc_platform bad =
     \<lparr> os_path_isfile = (\<lambda>w p. p \<in> set w),
       popen_wait = (\<lambda>w cmd.
          case cmd of
            [prog, src, flag, dst] \<Rightarrow>
              (if src \<in> set bad then (Exited 1, w) else (Exited 0, w @ [dst]))
          | _ \<Rightarrow> (Exited 2, w)),
       str_exn = (\<lambda>e. ''returned non-zero exit status''),
       stdout_encodes = (\<lambda>c. False) \<rparr>"

definition no_glslc_platform :: "string list platform" where
  "no_glslc_platform =
     \<lparr> os_path_isfile = (\<lambda>w p. p \<in> set w),
       popen_wait = (\<lambda>w cmd. (StartFailed ''No such file or directory'', w)),
       str_exn = (\<lambda>e. ''error''),
       stdout_encodes = (\<lambda>c. False) \<rparr>"

text \<open>A file name with a character outside ASCII.\<close>

definition cafe_vert :: string where
  "cafe_vert = ''shaders/caf'' @ [CHR 0xE9] @ ''.vert''"

section \<open>Properties\<close>

subsection \<open>Replacement, occurrence by occurrence\<close>

text \<open>
  Where \<open>old\<close> does not occur, both replacements leave the string as it is.
\<close>

lemma str_replace_absent:
  "old \<noteq> [] \<Longrightarrow> \<not> str_contains old s \<Longrightarrow> str_replace old new s = s"
  by (induction s) auto

lemma spec_replace_first_absent:
  "old \<noteq> [] \<Longrightarrow> \<not> str_contains old s \<Longrightarrow> spec_replace_first old new s = s"
  by (induction s) auto

text \<open>
  An occurrence of \<open>old\<close> that starts inside \<open>p\<close> ends inside \<open>p @ butlast old\<close>. So
  when \<open>old\<close> does not occur in \<open>p @ butlast old\<close>, the first occurrence in
  \<open>p @ old @ t\<close> is the one written out, and the scan goes on behind it.
\<close>

lemma prefix_append_long:
  "prefix xs (ys @ zs) \<Longrightarrow> length xs \<le> length ys \<Longrightarrow> prefix xs ys"
  by (auto simp: prefix_append dest: prefix_length_le)

lemma not_prefix_before_occurrence:
  assumes "old \<noteq> []" and "\<not> str_contains old ((c # p) @ butlast old)"
  shows "\<not> prefix old (c # p @ old @ t)"
proof
  assume pre: "prefix old (c # p @ old @ t)"
  have eq: "c # p @ old @ t = (c # p @ butlast old) @ (last old # t)"
    using assms(1) by simp
  have len: "length old \<le> length (c # p @ butlast old)"
    using assms(1) by simp
  from pre have "prefix old ((c # p @ butlast old) @ (last old # t))"
    by (simp only: eq)
  then have "prefix old (c # p @ butlast old)"
    using len by (rule prefix_append_long)
  with assms(2) show False by simp
qed

lemma str_replace_first_occ:
  assumes "old \<noteq> []" and "\<not> str_contains old (p @ butlast old)"
  shows "str_replace old new (p @ old @ t) = p @ new @ str_replace old new t"
  using assms(2)
proof (induction p)
  case Nil
  from assms(1) obtain c cs where "old = c # cs" by (cases old) auto
  then show ?case by simp
next
  case (Cons c p)
  have "\<not> prefix old (c # p @ old @ t)"
    using assms(1) Cons.prems by (rule not_prefix_before_occurrence)
  then show ?case using Cons assms(1) by simp
qed

lemma spec_replace_first_occ:
  assumes "old \<noteq> []" and "\<not> str_contains old (p @ butlast old)"
  shows "spec_replace_first old new (p @ old @ t) = p @ new @ t"
  using assms(2)
proof (induction p)
  case Nil
  from assms(1) obtain c cs where "old = c # cs" by (cases old) auto
  then show ?case by simp
next
  case (Cons c p)
  have "\<not> prefix old (c # p @ old @ t)"
    using assms(1) Cons.prems by (rule not_prefix_before_occurrence)
  then show ?case using Cons assms(1) by simp
qed

lemma str_replace_pieces:
  assumes "old \<noteq> []"
    and "\<forall>p \<in> set ps. \<not> str_contains old (p @ butlast old)"
    and "\<not> str_contains old rest"
  shows "str_replace old new (concat (map (\<lambda>p. p @ old) ps) @ rest)
           = concat (map (\<lambda>p. p @ new) ps) @ rest"
  using assms(2)
proof (induction ps)
  case Nil
  show ?case using assms(1,3) by (simp add: str_replace_absent)
next
  case (Cons p ps)
  have "str_replace old new (p @ old @ (concat (map (\<lambda>p. p @ old) ps) @ rest))
          = p @ new @ str_replace old new (concat (map (\<lambda>p. p @ old) ps) @ rest)"
    using assms(1) Cons.prems by (intro str_replace_first_occ) simp_all
  then show ?case using Cons by simp
qed

text \<open>
  Every string is cut in this way: pieces that each end with the leftmost occurrence of
  \<open>old\<close> behind the previous piece, and a rest without one. The closed form of
  \<open>str_replace\<close> above therefore speaks about every input.
\<close>

lemma str_contains_length: "str_contains old s \<Longrightarrow> length old \<le> length s"
  by (induction s) (auto dest: prefix_length_le)

lemma leftmost_occurrence:
  assumes "old \<noteq> []" and "str_contains old s"
  shows "\<exists>p t. s = p @ old @ t \<and> \<not> str_contains old (p @ butlast old)"
  using assms(2)
proof (induction s)
  case Nil
  then show ?case using assms(1) by simp
next
  case (Cons c cs)
  show ?case
  proof (cases "prefix old (c # cs)")
    case True
    then obtain t where "c # cs = [] @ old @ t" by (auto simp: prefix_def)
    moreover have "\<not> str_contains old ([] @ butlast old)"
    proof
      assume "str_contains old ([] @ butlast old)"
      then have "str_contains old (butlast old)" by simp
      then have "length old \<le> length (butlast old)"
        by (rule str_contains_length)
      moreover have "length (butlast old) = length old - 1" by simp
      moreover have "0 < length old" using assms(1) by simp
      ultimately show False by arith
    qed
    ultimately show ?thesis by blast
  next
    case False
    then have "str_contains old cs" using Cons.prems by simp
    from Cons.IH[OF this] obtain p t where
      s: "cs = p @ old @ t" and n: "\<not> str_contains old (p @ butlast old)" by blast
    have "\<not> prefix old (c # p @ butlast old)"
    proof
      assume "prefix old (c # p @ butlast old)"
      moreover have "prefix (c # p @ butlast old) (c # p @ old @ t)"
        using assms(1) by (simp add: prefix_def) (metis append_butlast_last_id append_assoc)
      ultimately have "prefix old (c # cs)" unfolding s by (rule prefix_order.trans)
      with False show False ..
    qed
    with n have "\<not> str_contains old ((c # p) @ butlast old)" by simp
    moreover have "c # cs = (c # p) @ old @ t" using s by simp
    ultimately show ?thesis by blast
  qed
qed

lemma every_string_splits:
  assumes "old \<noteq> []"
  shows "\<exists>ps rest. s = concat (map (\<lambda>p. p @ old) ps) @ rest
           \<and> (\<forall>p \<in> set ps. \<not> str_contains old (p @ butlast old))
           \<and> \<not> str_contains old rest"
proof (induction s rule: length_induct)
  case (1 s)
  show ?case
  proof (cases "str_contains old s")
    case False
    then have "s = concat (map (\<lambda>p. p @ old) []) @ s
           \<and> (\<forall>p \<in> set []. \<not> str_contains old (p @ butlast old))
           \<and> \<not> str_contains old s" by simp
    then show ?thesis by blast
  next
    case True
    from leftmost_occurrence[OF assms True] obtain p t where
      s: "s = p @ old @ t" and n: "\<not> str_contains old (p @ butlast old)" by blast
    have "length t < length s" using s assms by simp
    with 1 obtain ps rest where
      t: "t = concat (map (\<lambda>p. p @ old) ps) @ rest"
      and a: "\<forall>p \<in> set ps. \<not> str_contains old (p @ butlast old)"
      and r: "\<not> str_contains old rest" by blast
    have "s = concat (map (\<lambda>p. p @ old) (p # ps)) @ rest" using s t by simp
    moreover have "\<forall>q \<in> set (p # ps). \<not> str_contains old (q @ butlast old)"
      using n a by simp
    ultimately show ?thesis using r by blast
  qed
qed

subsection \<open>Printing\<close>

lemma py_print_encodable:
  "encodable P s \<Longrightarrow> py_print P s = (Inr (), [Print s])"
  by (simp add: py_print_def)

lemma py_print_raises:
  "\<not> encodable P s \<Longrightarrow> py_print P s = (Inl (UnicodeEncodeError s), [PrintRaised s])"
  by (simp add: py_print_def)

text \<open>
  The usage line is ASCII, so it can always be printed.
\<close>

lemma encodable_usage: "encodable P usage"
  by (simp add: encodable_def usage_def)

subsection \<open>One call of \<open>compile_shader\<close>\<close>

lemma compile_shader_exited:
  "popen_wait P w (command p) = (Exited rc, w') \<Longrightarrow>
   compile_shader P w p =
     (case py_print P
             (if rc = 0 then ''Compiled '' @ p @ '' to '' @ output_path p
              else ''Error compiling '' @ p @ '': ''
                   @ str_exn P (CalledProcessError rc (command p))) of
        (r, tr) \<Rightarrow> (r, Run (command p) (Exited rc) # tr, w'))"
  by (simp add: compile_shader_def subprocess_run_def split: prod.splits)

lemma compile_shader_start_failed:
  "popen_wait P w (command p) = (StartFailed d, w') \<Longrightarrow>
   compile_shader P w p = (Inl (OSError d), [Run (command p) (StartFailed d)], w')"
  by (simp add: compile_shader_def subprocess_run_def)

lemma compile_shader_runs: "runs (trace (compile_shader P w p)) = [command p]"
proof -
  obtain res w1 where pw: "popen_wait P w (command p) = (res, w1)"
    by (cases "popen_wait P w (command p)")
  show ?thesis
  proof (cases res)
    case (StartFailed d)
    then show ?thesis using pw by (simp add: compile_shader_start_failed)
  next
    case (Exited rc)
    with pw have "popen_wait P w (command p) = (Exited rc, w1)" by simp
    then show ?thesis
      by (simp add: compile_shader_exited py_print_def split: prod.splits)
  qed
qed

subsection \<open>One turn of the loop, and the loop\<close>

lemma for_loop_missing:
  assumes "\<not> os_path_isfile P w p"
  shows "for_loop P w (p # ps) =
     (if encodable P (''File not found: '' @ p) then
        (case for_loop P w ps of
           (r, tr, w1) \<Rightarrow> (r, IsFile p False # Print (''File not found: '' @ p) # tr, w1))
      else (Inl (UnicodeEncodeError (''File not found: '' @ p)),
            [IsFile p False, PrintRaised (''File not found: '' @ p)], w))"
  using assms by (simp add: py_print_def split: prod.splits)

lemma for_loop_exited:
  assumes "os_path_isfile P w p" and "popen_wait P w (command p) = (Exited rc, w1)"
    and "n = (if rc = 0 then ''Compiled '' @ p @ '' to '' @ output_path p
              else ''Error compiling '' @ p @ '': ''
                   @ str_exn P (CalledProcessError rc (command p)))"
  shows "for_loop P w (p # ps) =
     (if encodable P n then
        (case for_loop P w1 ps of
           (r, tr, w2) \<Rightarrow> (r, IsFile p True # Run (command p) (Exited rc) # Print n # tr, w2))
      else (Inl (UnicodeEncodeError n),
            [IsFile p True, Run (command p) (Exited rc), PrintRaised n], w1))"
proof -
  have cs: "compile_shader P w p =
      (case py_print P n of (r, tr) \<Rightarrow> (r, Run (command p) (Exited rc) # tr, w1))"
    using assms(2) unfolding assms(3) by (rule compile_shader_exited)
  show ?thesis
    using assms(1) by (simp add: cs py_print_def split: prod.splits)
qed

lemma for_loop_start_failed:
  assumes "os_path_isfile P w p" and "popen_wait P w (command p) = (StartFailed d, w1)"
  shows "for_loop P w (p # ps) =
     (Inl (OSError d), [IsFile p True, Run (command p) (StartFailed d)], w1)"
  using assms by (simp add: compile_shader_start_failed)

lemma for_loop_append:
  "for_loop P w (xs @ ys) =
     (case for_loop P w xs of
        (Inl e, tr, w') \<Rightarrow> (Inl e, tr, w')
      | (Inr u, tr, w') \<Rightarrow>
          (case for_loop P w' ys of (r, tr', w'') \<Rightarrow> (r, tr @ tr', w'')))"
  by (induction xs arbitrary: w) (auto split: prod.splits sum.splits)

lemma main_paths:
  "main P w (prog # paths) =
     (if paths = [] then (Inl (SystemExit 1), [Print usage], w) else for_loop P w paths)"
  by (cases paths) (simp_all add: main_def py_print_encodable encodable_usage)

lemma main_after_prefix:
  "for_loop P w before = (Inr (), tr0, w0) \<Longrightarrow>
   main P w (prog # before @ p # rest) =
     (case for_loop P w0 (p # rest) of (r, tr, w1) \<Rightarrow> (r, tr0 @ tr, w1))"
  by (simp add: main_paths for_loop_append del: for_loop.simps)

text \<open>
  Whatever happens, the commands run are those of the paths found, in order.
\<close>

lemma for_loop_runs_found:
  "runs (trace (for_loop P w ps)) = map command (found (trace (for_loop P w ps)))"
proof (induction ps arbitrary: w)
  case Nil
  show ?case by simp
next
  case (Cons p ps)
  show ?case
  proof (cases "os_path_isfile P w p")
    case False
    obtain r tr w2 where rest: "for_loop P w ps = (r, tr, w2)"
      by (cases "for_loop P w ps")
    show ?thesis using rest Cons.IH[of w]
      by (simp only: for_loop_missing[OF False]) simp
  next
    case True
    obtain res w1 where pw: "popen_wait P w (command p) = (res, w1)"
      by (cases "popen_wait P w (command p)")
    obtain r tr w2 where rest: "for_loop P w1 ps = (r, tr, w2)"
      by (cases "for_loop P w1 ps")
    show ?thesis
    proof (cases res)
      case (StartFailed d)
      with pw have "popen_wait P w (command p) = (StartFailed d, w1)" by simp
      from for_loop_start_failed[OF True this] show ?thesis by simp
    next
      case (Exited rc)
      with pw have "popen_wait P w (command p) = (Exited rc, w1)" by simp
      from for_loop_exited[OF True this refl] show ?thesis
        using rest Cons.IH[of w1] by simp
    qed
  qed
qed

text \<open>
  A run in which every attempt to start the compiler succeeded and every \<open>print\<close>
  wrote its line: the loop ends normally, having handled every path in turn, with the
  answers of the platform.
\<close>

lemma for_loop_without_failure:
  assumes "\<not> list_ex start_failure (trace (for_loop P w ps))"
    and "\<not> list_ex print_failure (trace (for_loop P w ps))"
  shows "outcome (for_loop P w ps) = Inr ()
         \<and> sequential P w ps (trace (for_loop P w ps))
         \<and> tested (trace (for_loop P w ps)) = ps
         \<and> found (trace (for_loop P w ps)) = existing_paths P w ps
         \<and> spawned (trace (for_loop P w ps)) = map command (found (trace (for_loop P w ps)))
         \<and> runs (trace (for_loop P w ps)) = spawned (trace (for_loop P w ps))"
  using assms
proof (induction ps arbitrary: w)
  case Nil
  show ?case by simp
next
  case (Cons p ps)
  show ?case
  proof (cases "os_path_isfile P w p")
    case False
    obtain r tr w1 where rest: "for_loop P w ps = (r, tr, w1)"
      by (cases "for_loop P w ps")
    show ?thesis
    proof (cases "encodable P (''File not found: '' @ p)")
      case enc: True
      have step: "for_loop P w (p # ps) =
          (r, IsFile p False # Print (''File not found: '' @ p) # tr, w1)"
        using False rest enc by (simp add: py_print_encodable)
      have "\<not> list_ex start_failure (trace (for_loop P w ps))"
        and "\<not> list_ex print_failure (trace (for_loop P w ps))"
        using Cons.prems step rest by simp_all
      from Cons.IH[OF this] show ?thesis
        using False step rest by simp
    next
      case nenc: False
      have "for_loop P w (p # ps) =
          (Inl (UnicodeEncodeError (''File not found: '' @ p)),
           [IsFile p False, PrintRaised (''File not found: '' @ p)], w)"
        using False nenc by (simp add: py_print_raises)
      then have False using Cons.prems(2) by simp
      then show ?thesis ..
    qed
  next
    case True
    obtain res w1 where pw: "popen_wait P w (command p) = (res, w1)"
      by (cases "popen_wait P w (command p)")
    show ?thesis
    proof (cases res)
      case (StartFailed d)
      then have False
        using Cons.prems(1) True pw by (simp add: compile_shader_start_failed)
      then show ?thesis ..
    next
      case (Exited rc)
      obtain r tr w2 where rest: "for_loop P w1 ps = (r, tr, w2)"
        by (cases "for_loop P w1 ps")
      let ?n = "if rc = 0 then ''Compiled '' @ p @ '' to '' @ output_path p
              else ''Error compiling '' @ p @ '': ''
                   @ str_exn P (CalledProcessError rc (command p))"
      have cs: "compile_shader P w p =
          (case py_print P ?n of (r, tr) \<Rightarrow> (r, Run (command p) (Exited rc) # tr, w1))"
        using pw Exited by (simp only: compile_shader_exited)
      show ?thesis
      proof (cases "encodable P ?n")
        case enc: True
        have step: "for_loop P w (p # ps) =
            (r, IsFile p True # Run (command p) (Exited rc) # Print ?n # tr, w2)"
          using True rest enc by (simp add: cs py_print_encodable del: if_split)
        have "\<not> list_ex start_failure (trace (for_loop P w1 ps))"
          and "\<not> list_ex print_failure (trace (for_loop P w1 ps))"
          using Cons.prems rest unfolding step by simp_all
        from Cons.IH[OF this] show ?thesis
          using True rest pw Exited unfolding step by (simp add: command_def)
      next
        case nenc: False
        have "for_loop P w (p # ps) =
            (Inl (UnicodeEncodeError ?n),
             [IsFile p True, Run (command p) (Exited rc), PrintRaised ?n], w1)"
          using True nenc by (simp add: cs py_print_raises del: if_split)
        then have False using Cons.prems(2) by simp
        then show ?thesis ..
      qed
    qed
  qed
qed

text \<open>
  The definitions that evaluate a run on a concrete platform.
\<close>

lemmas run_defs = main_def compile_shader_def subprocess_run_def command_def output_path_def
  glslc_platform_def no_glslc_platform_def usage_def py_print_def encodable_def cafe_vert_def

subsection \<open>The claims\<close>

text \<open>
  C1 (as the code has it). \<open>replace\<close> is called without a count, so the output path is
  the input path with every occurrence of \<open>shaders\<close> replaced by \<open>bin\<close>, the occurrences
  taken from the left and none overlapping a replaced one, followed by \<open>.spv\<close>. Written
  out: when the path is cut into pieces \<open>p\<close> each followed by \<open>shaders\<close>, with no earlier
  occurrence reaching into a piece, and a rest free of \<open>shaders\<close>, each \<open>shaders\<close> between
  the pieces becomes \<open>bin\<close>. For a path with at most one occurrence this is the
  replacement of the first occurrence.
\<close>

theorem output_path_replaces_every_occurrence:
  assumes "\<forall>p \<in> set ps. \<not> str_contains ''shaders'' (p @ ''shader'')"
    and "\<not> str_contains ''shaders'' rest"
  shows "output_path (concat (map (\<lambda>p. p @ ''shaders'') ps) @ rest)
           = concat (map (\<lambda>p. p @ ''bin'') ps) @ rest @ ''.spv''
         \<and> (length ps \<le> 1 \<longrightarrow>
              output_path (concat (map (\<lambda>p. p @ ''shaders'') ps) @ rest)
                = spec_output_path (concat (map (\<lambda>p. p @ ''shaders'') ps) @ rest))"
proof
  have b: "butlast ''shaders'' = ''shader''" by simp
  show all: "output_path (concat (map (\<lambda>p. p @ ''shaders'') ps) @ rest)
           = concat (map (\<lambda>p. p @ ''bin'') ps) @ rest @ ''.spv''"
    unfolding output_path_def
    using str_replace_pieces[of "''shaders''" ps rest "''bin''"] assms
    by (simp only: b) simp
  show "length ps \<le> 1 \<longrightarrow>
          output_path (concat (map (\<lambda>p. p @ ''shaders'') ps) @ rest)
            = spec_output_path (concat (map (\<lambda>p. p @ ''shaders'') ps) @ rest)"
  proof
    assume "length ps \<le> 1"
    then consider "ps = []" | p where "ps = [p]"
      by (cases ps) (auto simp: le_Suc_eq)
    then show "output_path (concat (map (\<lambda>p. p @ ''shaders'') ps) @ rest)
            = spec_output_path (concat (map (\<lambda>p. p @ ''shaders'') ps) @ rest)"
    proof cases
      case 1
      then show ?thesis using assms(2)
        by (simp add: output_path_def spec_output_path_def str_replace_absent
            spec_replace_first_absent)
    next
      case (2 p)
      have "\<not> str_contains ''shaders'' (p @ butlast ''shaders'')"
        using assms(1) 2 by (simp only: b) simp
      then have "spec_replace_first ''shaders'' ''bin'' (p @ ''shaders'' @ rest) = p @ ''bin'' @ rest"
        by (intro spec_replace_first_occ) simp_all
      then show ?thesis using all 2 by (simp add: spec_output_path_def)
    qed
  qed
qed

text \<open>
  The path \<open>shaders/shaders/a.vert\<close>, cut into the pieces \<open>''''\<close> and \<open>''/''\<close> and the rest
  \<open>/a.vert\<close>.
\<close>

theorem output_path_replaces_every_occurrence_witness:
  "(\<not> str_contains ''shaders'' ('''' @ ''shader'')
    \<and> \<not> str_contains ''shaders'' (''/'' @ ''shader''))
   \<and> \<not> str_contains ''shaders'' ''/a.vert''
   \<and> output_path ''shaders/shaders/a.vert'' = ''bin/bin/a.vert.spv''"
  using output_path_replaces_every_occurrence [of "['''', ''/'']" "''/a.vert''"]
  by simp

text \<open>
  C1 as worded says that only the first occurrence is replaced. On
  \<open>shaders/shaders/a.vert\<close> the code replaces both.
\<close>

theorem first_occurrence_only_counterexample:
  "output_path ''shaders/shaders/a.vert'' = ''bin/bin/a.vert.spv''
   \<and> spec_output_path ''shaders/shaders/a.vert'' = ''bin/shaders/a.vert.spv''
   \<and> output_path ''shaders/shaders/a.vert'' \<noteq> spec_output_path ''shaders/shaders/a.vert''"
  by (simp add: output_path_def spec_output_path_def)

text \<open>
  C2 (as the code has it). When the loop reaches a path (every earlier path was handled
  without an exception), the path is a file and the compiler returns a non-zero status
  on it: if standard output can encode the notice
  \<open>Error compiling <path>: <str(e)>\<close>, the driver prints it and goes on with the
  remaining paths, from the world the compiler left. If it cannot, \<open>print\<close> raises
  \<open>UnicodeEncodeError\<close> inside the handler, nothing is printed and the run ends there.
\<close>

theorem nonzero_exit_reported:
  assumes "for_loop P w before = (Inr (), tr0, w0)"
    and "os_path_isfile P w0 p"
    and "popen_wait P w0 (command p) = (Exited rc, w1)"
    and "rc \<noteq> 0"
  shows "main P w (prog # before @ p # rest) =
           (if encodable P (''Error compiling '' @ p @ '': ''
                            @ str_exn P (CalledProcessError rc (command p))) then
              (case for_loop P w1 rest of
                 (r, tr, w2) \<Rightarrow>
                   (r, tr0 @ [IsFile p True, Run (command p) (Exited rc),
                              Print (''Error compiling '' @ p @ '': ''
                                     @ str_exn P (CalledProcessError rc (command p)))] @ tr,
                    w2))
            else
              (Inl (UnicodeEncodeError (''Error compiling '' @ p @ '': ''
                                        @ str_exn P (CalledProcessError rc (command p)))),
               tr0 @ [IsFile p True, Run (command p) (Exited rc),
                      PrintRaised (''Error compiling '' @ p @ '': ''
                                   @ str_exn P (CalledProcessError rc (command p)))],
               w1))"
  unfolding main_after_prefix[OF assms(1)] for_loop_exited[OF assms(2,3) refl]
  using assms(4) by (simp split: prod.splits)

text \<open>
  The compiler fails on \<open>shaders/bad.vert\<close>; \<open>shaders/a.vert\<close> is compiled after it.
\<close>

theorem nonzero_exit_reported_witness:
  "for_loop (glslc_platform [''shaders/bad.vert'']) [''shaders/bad.vert'', ''shaders/a.vert''] []
     = (Inr (), [], [''shaders/bad.vert'', ''shaders/a.vert''])
   \<and> os_path_isfile (glslc_platform [''shaders/bad.vert''])
         [''shaders/bad.vert'', ''shaders/a.vert''] ''shaders/bad.vert''
   \<and> popen_wait (glslc_platform [''shaders/bad.vert''])
         [''shaders/bad.vert'', ''shaders/a.vert''] (command ''shaders/bad.vert'')
       = (Exited 1, [''shaders/bad.vert'', ''shaders/a.vert''])
   \<and> (1::int) \<noteq> 0
   \<and> encodable (glslc_platform [''shaders/bad.vert''])
         (''Error compiling '' @ ''shaders/bad.vert'' @ '': ''
          @ str_exn (glslc_platform [''shaders/bad.vert''])
              (CalledProcessError 1 (command ''shaders/bad.vert'')))
   \<and> main (glslc_platform [''shaders/bad.vert'']) [''shaders/bad.vert'', ''shaders/a.vert'']
         [''compile_shaders.py'', ''shaders/bad.vert'', ''shaders/a.vert'']
     = (Inr (),
        [IsFile ''shaders/bad.vert'' True,
         Run [''glslc'', ''shaders/bad.vert'', ''-o'', ''bin/bad.vert.spv''] (Exited 1),
         Print ''Error compiling shaders/bad.vert: returned non-zero exit status'',
         IsFile ''shaders/a.vert'' True,
         Run [''glslc'', ''shaders/a.vert'', ''-o'', ''bin/a.vert.spv''] (Exited 0),
         Print ''Compiled shaders/a.vert to bin/a.vert.spv''],
        [''shaders/bad.vert'', ''shaders/a.vert'', ''bin/a.vert.spv''])"
  using nonzero_exit_reported
    [where P = "glslc_platform [''shaders/bad.vert'']"
       and w = "[''shaders/bad.vert'', ''shaders/a.vert'']"
       and before = "[]" and p = "''shaders/bad.vert''" and rc = 1
       and prog = "''compile_shaders.py''" and rest = "[''shaders/a.vert'']"]
  by (simp add: run_defs)

text \<open>
  C2 as worded covers a compiler that cannot be started, and every existing path. The
  handler catches \<open>CalledProcessError\<close> only: with no \<open>glslc\<close> to start, nothing is
  printed, the \<open>OSError\<close> leaves the loop and the second path is never looked at. And
  when the compiler returns 1 on a path that standard output cannot encode, the notice
  is not printed either, and the run ends with status 1 before the second path.
\<close>

theorem failure_not_reported_counterexample:
  "os_path_isfile no_glslc_platform [''shaders/a.vert'', ''shaders/b.vert''] ''shaders/a.vert''
   \<and> os_path_isfile no_glslc_platform [''shaders/a.vert'', ''shaders/b.vert''] ''shaders/b.vert''
   \<and> popen_wait no_glslc_platform [''shaders/a.vert'', ''shaders/b.vert'']
         (command ''shaders/a.vert'')
       = (StartFailed ''No such file or directory'', [''shaders/a.vert'', ''shaders/b.vert''])
   \<and> outcome (main no_glslc_platform [''shaders/a.vert'', ''shaders/b.vert'']
         [''compile_shaders.py'', ''shaders/a.vert'', ''shaders/b.vert''])
       = Inl (OSError ''No such file or directory'')
   \<and> printed (trace (main no_glslc_platform [''shaders/a.vert'', ''shaders/b.vert'']
         [''compile_shaders.py'', ''shaders/a.vert'', ''shaders/b.vert''])) = []
   \<and> tested (trace (main no_glslc_platform [''shaders/a.vert'', ''shaders/b.vert'']
         [''compile_shaders.py'', ''shaders/a.vert'', ''shaders/b.vert''])) = [''shaders/a.vert'']
   \<and> os_path_isfile (glslc_platform [cafe_vert]) [cafe_vert, ''shaders/b.vert''] cafe_vert
   \<and> popen_wait (glslc_platform [cafe_vert]) [cafe_vert, ''shaders/b.vert''] (command cafe_vert)
       = (Exited 1, [cafe_vert, ''shaders/b.vert''])
   \<and> printed (trace (main (glslc_platform [cafe_vert]) [cafe_vert, ''shaders/b.vert'']
         [''compile_shaders.py'', cafe_vert, ''shaders/b.vert''])) = []
   \<and> tested (trace (main (glslc_platform [cafe_vert]) [cafe_vert, ''shaders/b.vert'']
         [''compile_shaders.py'', cafe_vert, ''shaders/b.vert''])) = [cafe_vert]
   \<and> exit_status (outcome (main (glslc_platform [cafe_vert]) [cafe_vert, ''shaders/b.vert'']
         [''compile_shaders.py'', cafe_vert, ''shaders/b.vert''])) = 1"
  by (simp add: run_defs)

text \<open>
  C3. With fewer than two entries in \<open>sys.argv\<close> (no path argument) the driver prints
  the usage line, exits with status 1 and runs no command.
\<close>

theorem usage_error:
  assumes "length argv < 2"
  shows "main P w argv = (Inl (SystemExit 1), [Print usage], w)
         \<and> exit_status (outcome (main P w argv)) = 1
         \<and> runs (trace (main P w argv)) = []"
  using assms by (simp add: main_def py_print_encodable encodable_usage)

text \<open>
  The script called with no argument.
\<close>

theorem usage_error_witness:
  "length [''compile_shaders.py''] < 2
   \<and> main (glslc_platform []) [''shaders/a.vert''] [''compile_shaders.py'']
       = (Inl (SystemExit 1), [Print ''Usage: compile_shaders.py <shader1> <shader2> ...''],
          [''shaders/a.vert''])
   \<and> exit_status (outcome (main (glslc_platform []) [''shaders/a.vert''] [''compile_shaders.py''])) = 1
   \<and> runs (trace (main (glslc_platform []) [''shaders/a.vert''] [''compile_shaders.py''])) = []"
  using usage_error [of "[''compile_shaders.py'']" "glslc_platform []" "[''shaders/a.vert'']"]
  by (simp add: usage_def)

text \<open>
  C4 (as the code has it). When the loop reaches a path (every earlier path was handled
  without an exception) and the path is not a regular file, no command is run for it and
  the world stays as it was. If standard output can encode the notice
  \<open>File not found: <path>\<close>, the driver prints it and goes on with the remaining paths;
  if it cannot, \<open>print\<close> raises \<open>UnicodeEncodeError\<close>, nothing is printed and the run
  ends there.
\<close>

theorem missing_file_skipped:
  assumes "for_loop P w before = (Inr (), tr0, w0)"
    and "\<not> os_path_isfile P w0 p"
  shows "main P w (prog # before @ p # rest) =
           (if encodable P (''File not found: '' @ p) then
              (case for_loop P w0 rest of
                 (r, tr, w1) \<Rightarrow>
                   (r, tr0 @ [IsFile p False, Print (''File not found: '' @ p)] @ tr, w1))
            else
              (Inl (UnicodeEncodeError (''File not found: '' @ p)),
               tr0 @ [IsFile p False, PrintRaised (''File not found: '' @ p)], w0))"
  unfolding main_after_prefix[OF assms(1)] for_loop_missing[OF assms(2)]
  by (simp split: prod.splits)

text \<open>
  A missing file between two files that exist.
\<close>

theorem missing_file_skipped_witness:
  "for_loop (glslc_platform []) [''shaders/a.vert''] [''shaders/a.vert'']
     = (Inr (),
        [IsFile ''shaders/a.vert'' True,
         Run [''glslc'', ''shaders/a.vert'', ''-o'', ''bin/a.vert.spv''] (Exited 0),
         Print ''Compiled shaders/a.vert to bin/a.vert.spv''],
        [''shaders/a.vert'', ''bin/a.vert.spv''])
   \<and> \<not> os_path_isfile (glslc_platform []) [''shaders/a.vert'', ''bin/a.vert.spv'']
         ''shaders/missing.vert''
   \<and> encodable (glslc_platform []) (''File not found: '' @ ''shaders/missing.vert'')
   \<and> main (glslc_platform []) [''shaders/a.vert'']
         [''compile_shaders.py'', ''shaders/a.vert'', ''shaders/missing.vert'', ''bin/a.vert.spv'']
     = (Inr (),
        [IsFile ''shaders/a.vert'' True,
         Run [''glslc'', ''shaders/a.vert'', ''-o'', ''bin/a.vert.spv''] (Exited 0),
         Print ''Compiled shaders/a.vert to bin/a.vert.spv'',
         IsFile ''shaders/missing.vert'' False,
         Print ''File not found: shaders/missing.vert'',
         IsFile ''bin/a.vert.spv'' True,
         Run [''glslc'', ''bin/a.vert.spv'', ''-o'', ''bin/a.vert.spv.spv''] (Exited 0),
         Print ''Compiled bin/a.vert.spv to bin/a.vert.spv.spv''],
        [''shaders/a.vert'', ''bin/a.vert.spv'', ''bin/a.vert.spv.spv''])"
  using missing_file_skipped
    [where P = "glslc_platform []" and w = "[''shaders/a.vert'']"
       and before = "[''shaders/a.vert'']" and p = "''shaders/missing.vert''"
       and prog = "''compile_shaders.py''" and rest = "[''bin/a.vert.spv'']"]
  by (simp add: run_defs)

text \<open>
  C4 as worded speaks of every path that is no file. A missing path behind a path on
  which the compiler could not be started is never tested and gets no notice; and a
  missing path that standard output cannot encode gets no notice, and the path after it
  is not looked at.
\<close>

theorem missing_path_without_notice_counterexample:
  "\<not> os_path_isfile no_glslc_platform [''shaders/a.vert''] ''shaders/missing.vert''
   \<and> printed (trace (main no_glslc_platform [''shaders/a.vert'']
         [''compile_shaders.py'', ''shaders/a.vert'', ''shaders/missing.vert''])) = []
   \<and> tested (trace (main no_glslc_platform [''shaders/a.vert'']
         [''compile_shaders.py'', ''shaders/a.vert'', ''shaders/missing.vert'']))
       = [''shaders/a.vert'']
   \<and> \<not> os_path_isfile (glslc_platform []) [''shaders/a.vert''] cafe_vert
   \<and> printed (trace (main (glslc_platform []) [''shaders/a.vert'']
         [''compile_shaders.py'', cafe_vert, ''shaders/a.vert''])) = []
   \<and> trace (main (glslc_platform []) [''shaders/a.vert'']
         [''compile_shaders.py'', cafe_vert, ''shaders/a.vert''])
       = [IsFile cafe_vert False, PrintRaised (''File not found: '' @ cafe_vert)]
   \<and> exit_status (outcome (main (glslc_platform []) [''shaders/a.vert'']
         [''compile_shaders.py'', cafe_vert, ''shaders/a.vert''])) = 1"
  by (simp add: run_defs)

text \<open>
  C5. For a path in which \<open>shaders\<close> does not occur, the output path is the path
  followed by \<open>.spv\<close>, and \<open>compile_shader\<close> does with that output path what it does
  for any path: it runs \<open>[glslc, path, -o, path.spv]\<close> in the given world and reports
  what the platform answers. The missing substring raises nothing: whenever the compiler
  was started and the line reporting it can be printed, the call returns normally.
\<close>

theorem no_shaders_means_suffix_only:
  assumes "\<not> str_contains ''shaders'' p"
  shows "output_path p = p @ ''.spv''
         \<and> compile_shader P w p =
             (case popen_wait P w [''glslc'', p, ''-o'', p @ ''.spv''] of
                (Exited rc, w') \<Rightarrow>
                  (case py_print P
                          (if rc = 0 then ''Compiled '' @ p @ '' to '' @ p @ ''.spv''
                           else ''Error compiling '' @ p @ '': ''
                                @ str_exn P (CalledProcessError rc
                                               [''glslc'', p, ''-o'', p @ ''.spv''])) of
                     (r, tr) \<Rightarrow>
                       (r, Run [''glslc'', p, ''-o'', p @ ''.spv''] (Exited rc) # tr, w'))
              | (StartFailed d, w') \<Rightarrow>
                  (Inl (OSError d),
                   [Run [''glslc'', p, ''-o'', p @ ''.spv''] (StartFailed d)], w'))
         \<and> (\<forall>rc w'.
               popen_wait P w [''glslc'', p, ''-o'', p @ ''.spv''] = (Exited rc, w') \<longrightarrow>
               encodable P
                 (if rc = 0 then ''Compiled '' @ p @ '' to '' @ p @ ''.spv''
                  else ''Error compiling '' @ p @ '': ''
                       @ str_exn P (CalledProcessError rc
                                      [''glslc'', p, ''-o'', p @ ''.spv''])) \<longrightarrow>
               outcome (compile_shader P w p) = Inr ())"
proof -
  have out: "output_path p = p @ ''.spv''"
    using assms by (simp add: output_path_def str_replace_absent)
  have cmd: "command p = [''glslc'', p, ''-o'', p @ ''.spv'']"
    by (simp add: command_def out)
  obtain res w1 where pw: "popen_wait P w (command p) = (res, w1)"
    by (cases "popen_wait P w (command p)")
  have "compile_shader P w p =
             (case popen_wait P w (command p) of
                (Exited rc, w') \<Rightarrow>
                  (case py_print P
                          (if rc = 0 then ''Compiled '' @ p @ '' to '' @ output_path p
                           else ''Error compiling '' @ p @ '': ''
                                @ str_exn P (CalledProcessError rc (command p))) of
                     (r, tr) \<Rightarrow> (r, Run (command p) (Exited rc) # tr, w'))
              | (StartFailed d, w') \<Rightarrow>
                  (Inl (OSError d), [Run (command p) (StartFailed d)], w'))"
  proof (cases res)
    case (StartFailed d)
    then show ?thesis using pw by (simp add: compile_shader_start_failed)
  next
    case (Exited rc)
    with pw have e: "popen_wait P w (command p) = (Exited rc, w1)" by simp
    show ?thesis by (simp only: compile_shader_exited[OF e]) (simp add: e)
  qed
  then have eq: "compile_shader P w p =
             (case popen_wait P w [''glslc'', p, ''-o'', p @ ''.spv''] of
                (Exited rc, w') \<Rightarrow>
                  (case py_print P
                          (if rc = 0 then ''Compiled '' @ p @ '' to '' @ p @ ''.spv''
                           else ''Error compiling '' @ p @ '': ''
                                @ str_exn P (CalledProcessError rc
                                               [''glslc'', p, ''-o'', p @ ''.spv''])) of
                     (r, tr) \<Rightarrow>
                       (r, Run [''glslc'', p, ''-o'', p @ ''.spv''] (Exited rc) # tr, w'))
              | (StartFailed d, w') \<Rightarrow>
                  (Inl (OSError d),
                   [Run [''glslc'', p, ''-o'', p @ ''.spv''] (StartFailed d)], w'))"
    unfolding cmd out .
  have "outcome (compile_shader P w p) = Inr ()"
    if "popen_wait P w [''glslc'', p, ''-o'', p @ ''.spv''] = (Exited rc, w')"
      and "encodable P
                 (if rc = 0 then ''Compiled '' @ p @ '' to '' @ p @ ''.spv''
                  else ''Error compiling '' @ p @ '': ''
                       @ str_exn P (CalledProcessError rc
                                      [''glslc'', p, ''-o'', p @ ''.spv'']))"
    for rc w'
    using that unfolding eq by (simp add: py_print_def)
  then show ?thesis using out eq by blast
qed

text \<open>
  The path \<open>src/tri.vert\<close>.
\<close>

theorem no_shaders_means_suffix_only_witness:
  "\<not> str_contains ''shaders'' ''src/tri.vert''
   \<and> output_path ''src/tri.vert'' = ''src/tri.vert.spv''
   \<and> compile_shader (glslc_platform []) [''src/tri.vert''] ''src/tri.vert''
       = (Inr (),
          [Run [''glslc'', ''src/tri.vert'', ''-o'', ''src/tri.vert.spv''] (Exited 0),
           Print ''Compiled src/tri.vert to src/tri.vert.spv''],
          [''src/tri.vert'', ''src/tri.vert.spv''])"
  using no_shaders_means_suffix_only
    [where p = "''src/tri.vert''" and P = "glslc_platform []" and w = "[''src/tri.vert'']"]
  by (simp add: run_defs)

text \<open>
  C6 (as the code has it). With at least one path argument, no attempt to start the
  compiler ending in an \<open>OSError\<close> and no \<open>print\<close> raising \<open>UnicodeEncodeError\<close>, the
  exit status is 0, however many compilations returned a non-zero status and however
  many files were missing.
\<close>

theorem exit_status_zero_without_failure:
  assumes "2 \<le> length argv"
    and "\<not> list_ex start_failure (trace (main P w argv))"
    and "\<not> list_ex print_failure (trace (main P w argv))"
  shows "exit_status (outcome (main P w argv)) = 0"
proof -
  have m: "main P w argv = for_loop P w (drop 1 argv)"
    using assms(1) by (simp add: main_def)
  have "outcome (for_loop P w (drop 1 argv)) = Inr ()"
    using for_loop_without_failure[of P w "drop 1 argv"] assms(2,3) m by simp
  then show ?thesis by (simp add: m)
qed

text \<open>
  One failing compilation and one missing file: status 0.
\<close>

theorem exit_status_zero_without_failure_witness:
  "2 \<le> length [''compile_shaders.py'', ''shaders/bad.vert'', ''shaders/missing.vert'']
   \<and> \<not> list_ex start_failure
         (trace (main (glslc_platform [''shaders/bad.vert'']) [''shaders/bad.vert'']
            [''compile_shaders.py'', ''shaders/bad.vert'', ''shaders/missing.vert'']))
   \<and> \<not> list_ex print_failure
         (trace (main (glslc_platform [''shaders/bad.vert'']) [''shaders/bad.vert'']
            [''compile_shaders.py'', ''shaders/bad.vert'', ''shaders/missing.vert'']))
   \<and> exit_status
         (outcome (main (glslc_platform [''shaders/bad.vert'']) [''shaders/bad.vert'']
            [''compile_shaders.py'', ''shaders/bad.vert'', ''shaders/missing.vert''])) = 0"
  using exit_status_zero_without_failure
    [where P = "glslc_platform [''shaders/bad.vert'']" and w = "[''shaders/bad.vert'']"
       and argv = "[''compile_shaders.py'', ''shaders/bad.vert'', ''shaders/missing.vert'']"]
  by (simp add: run_defs)

text \<open>
  C6 as worded promises status 0 whenever a path argument is given. With no \<open>glslc\<close> to
  start, the \<open>OSError\<close> is not caught and the interpreter exits with status 1. And with
  \<open>glslc\<close> at work on a file whose name standard output cannot encode, the compiler
  runs, \<open>print\<close> raises, and the status is 1 as well.
\<close>

theorem exit_status_nonzero_counterexample:
  "1 \<le> length (drop 1 [''compile_shaders.py'', ''shaders/a.vert''])
   \<and> os_path_isfile no_glslc_platform [''shaders/a.vert''] ''shaders/a.vert''
   \<and> exit_status (outcome (main no_glslc_platform [''shaders/a.vert'']
         [''compile_shaders.py'', ''shaders/a.vert''])) = 1
   \<and> exit_status (outcome (main no_glslc_platform [''shaders/a.vert'']
         [''compile_shaders.py'', ''shaders/a.vert''])) \<noteq> 0
   \<and> 1 \<le> length (drop 1 [''compile_shaders.py'', cafe_vert])
   \<and> os_path_isfile (glslc_platform []) [cafe_vert] cafe_vert
   \<and> spawned (trace (main (glslc_platform []) [cafe_vert] [''compile_shaders.py'', cafe_vert]))
       = [command cafe_vert]
   \<and> exit_status (outcome (main (glslc_platform []) [cafe_vert]
         [''compile_shaders.py'', cafe_vert])) = 1"
  by (simp add: run_defs)

text \<open>
  C7 (as the code has it). With at least one path argument, no attempt to start the
  compiler ending in an \<open>OSError\<close> and no \<open>print\<close> raising \<open>UnicodeEncodeError\<close>: the
  paths are tested in the order given, each one handled completely (file test, compiler
  run, notice) before the next is tested, with the answers \<open>os.path.isfile\<close> and the
  compiler give at that moment; the paths found are exactly those that are regular files
  when their turn comes; each of them gets exactly one compiler process, with the
  arguments \<open>[glslc, path, -o, output_path path]\<close>, in that order; and no other command
  is run.
\<close>

theorem one_run_per_existing_path_in_order:
  assumes "2 \<le> length argv"
    and "\<not> list_ex start_failure (trace (main P w argv))"
    and "\<not> list_ex print_failure (trace (main P w argv))"
  shows "sequential P w (drop 1 argv) (trace (main P w argv))
         \<and> tested (trace (main P w argv)) = drop 1 argv
         \<and> found (trace (main P w argv)) = existing_paths P w (drop 1 argv)
         \<and> spawned (trace (main P w argv))
             = map (\<lambda>p. [''glslc'', p, ''-o'', output_path p])
                 (existing_paths P w (drop 1 argv))
         \<and> runs (trace (main P w argv)) = spawned (trace (main P w argv))"
proof -
  have m: "main P w argv = for_loop P w (drop 1 argv)"
    using assms(1) by (simp add: main_def)
  have c: "command = (\<lambda>p. [''glslc'', p, ''-o'', output_path p])"
    by (rule ext) (simp add: command_def)
  have "outcome (for_loop P w (drop 1 argv)) = Inr ()
         \<and> sequential P w (drop 1 argv) (trace (for_loop P w (drop 1 argv)))
         \<and> tested (trace (for_loop P w (drop 1 argv))) = drop 1 argv
         \<and> found (trace (for_loop P w (drop 1 argv))) = existing_paths P w (drop 1 argv)
         \<and> spawned (trace (for_loop P w (drop 1 argv)))
             = map command (found (trace (for_loop P w (drop 1 argv))))
         \<and> runs (trace (for_loop P w (drop 1 argv)))
             = spawned (trace (for_loop P w (drop 1 argv)))"
    using assms(2,3) unfolding m by (rule for_loop_without_failure)
  then show ?thesis unfolding m c by simp
qed

text \<open>
  A file that compiles, a missing file, a file on which the compiler fails.
\<close>

theorem one_run_per_existing_path_in_order_witness:
  "2 \<le> length [''compile_shaders.py'', ''shaders/a.vert'', ''nowhere'', ''shaders/bad.vert'']
   \<and> \<not> list_ex start_failure
         (trace (main (glslc_platform [''shaders/bad.vert''])
            [''shaders/a.vert'', ''shaders/bad.vert'']
            [''compile_shaders.py'', ''shaders/a.vert'', ''nowhere'', ''shaders/bad.vert'']))
   \<and> \<not> list_ex print_failure
         (trace (main (glslc_platform [''shaders/bad.vert''])
            [''shaders/a.vert'', ''shaders/bad.vert'']
            [''compile_shaders.py'', ''shaders/a.vert'', ''nowhere'', ''shaders/bad.vert'']))
   \<and> sequential (glslc_platform [''shaders/bad.vert''])
         [''shaders/a.vert'', ''shaders/bad.vert'']
         [''shaders/a.vert'', ''nowhere'', ''shaders/bad.vert'']
         (trace (main (glslc_platform [''shaders/bad.vert''])
            [''shaders/a.vert'', ''shaders/bad.vert'']
            [''compile_shaders.py'', ''shaders/a.vert'', ''nowhere'', ''shaders/bad.vert'']))
   \<and> tested
         (trace (main (glslc_platform [''shaders/bad.vert''])
            [''shaders/a.vert'', ''shaders/bad.vert'']
            [''compile_shaders.py'', ''shaders/a.vert'', ''nowhere'', ''shaders/bad.vert'']))
       = [''shaders/a.vert'', ''nowhere'', ''shaders/bad.vert'']
   \<and> existing_paths (glslc_platform [''shaders/bad.vert''])
         [''shaders/a.vert'', ''shaders/bad.vert'']
         [''shaders/a.vert'', ''nowhere'', ''shaders/bad.vert'']
       = [''shaders/a.vert'', ''shaders/bad.vert'']
   \<and> spawned
         (trace (main (glslc_platform [''shaders/bad.vert''])
            [''shaders/a.vert'', ''shaders/bad.vert'']
            [''compile_shaders.py'', ''shaders/a.vert'', ''nowhere'', ''shaders/bad.vert'']))
       = [[''glslc'', ''shaders/a.vert'', ''-o'', ''bin/a.vert.spv''],
          [''glslc'', ''shaders/bad.vert'', ''-o'', ''bin/bad.vert.spv'']]"
  using one_run_per_existing_path_in_order
    [where P = "glslc_platform [''shaders/bad.vert'']"
       and w = "[''shaders/a.vert'', ''shaders/bad.vert'']"
       and argv = "[''compile_shaders.py'', ''shaders/a.vert'', ''nowhere'', ''shaders/bad.vert'']"]
  by (simp add: run_defs)

text \<open>
  C7 as worded promises one compiler process for each existing path. With no \<open>glslc\<close>
  to start, two existing paths get no process at all, and the second is not even
  attempted. And when the first file compiles but standard output cannot encode its
  name, the run ends at the \<open>print\<close>: the second file, which exists, is never tested
  and gets no process.
\<close>

theorem later_paths_not_run_counterexample:
  "os_path_isfile no_glslc_platform [''shaders/x.frag'', ''shaders/y.frag''] ''shaders/x.frag''
   \<and> os_path_isfile no_glslc_platform [''shaders/x.frag'', ''shaders/y.frag''] ''shaders/y.frag''
   \<and> spawned (trace (main no_glslc_platform [''shaders/x.frag'', ''shaders/y.frag'']
         [''compile_shaders.py'', ''shaders/x.frag'', ''shaders/y.frag''])) = []
   \<and> runs (trace (main no_glslc_platform [''shaders/x.frag'', ''shaders/y.frag'']
         [''compile_shaders.py'', ''shaders/x.frag'', ''shaders/y.frag'']))
       = [[''glslc'', ''shaders/x.frag'', ''-o'', ''bin/x.frag.spv'']]
   \<and> os_path_isfile (glslc_platform []) [cafe_vert, ''shaders/y.frag''] cafe_vert
   \<and> os_path_isfile (glslc_platform []) [cafe_vert, ''shaders/y.frag'', output_path cafe_vert]
         ''shaders/y.frag''
   \<and> spawned (trace (main (glslc_platform []) [cafe_vert, ''shaders/y.frag'']
         [''compile_shaders.py'', cafe_vert, ''shaders/y.frag''])) = [command cafe_vert]
   \<and> tested (trace (main (glslc_platform []) [cafe_vert, ''shaders/y.frag'']
         [''compile_shaders.py'', cafe_vert, ''shaders/y.frag''])) = [cafe_vert]"
  by (simp add: run_defs)

text \<open>
  C8. The output path handed to the compiler is \<open>output_path\<close> of the input path,
  a function of that string alone: in any two worlds, on any two platforms,
  \<open>compile_shader\<close> on the same path runs the same command; and in a whole run, whatever
  was compiled before, every command run is \<open>[glslc, p, -o, output_path p]\<close> for the path
  \<open>p\<close> just found.
\<close>

theorem output_path_same_in_every_world:
  "runs (trace (compile_shader P w p)) = [[''glslc'', p, ''-o'', output_path p]]
   \<and> runs (trace (compile_shader P' w' p)) = runs (trace (compile_shader P w p))
   \<and> runs (trace (main P w argv))
       = map (\<lambda>p. [''glslc'', p, ''-o'', output_path p]) (found (trace (main P w argv)))"
proof -
  have c: "command = (\<lambda>p. [''glslc'', p, ''-o'', output_path p])"
    by (rule ext) (simp add: command_def)
  have whole: "runs (trace (main P w argv))
       = map (\<lambda>p. [''glslc'', p, ''-o'', output_path p]) (found (trace (main P w argv)))"
    using for_loop_runs_found[of P w "drop 1 argv"]
    by (simp add: main_def c py_print_encodable encodable_usage)
  show ?thesis using whole by (simp add: compile_shader_runs command_def)
qed

text \<open>
  C9. The replacement knows nothing of path separators or of where a path component
  begins and ends: whatever stands before the first occurrence of \<open>shaders\<close> and whatever
  follows it, a separator or not, that occurrence becomes \<open>bin\<close>, and the replacement
  goes on in what follows. (That no occurrence of \<open>shaders\<close> begins earlier is the
  hypothesis.)
\<close>

theorem substring_inside_component:
  assumes "\<not> str_contains ''shaders'' (before @ ''shader'')"
  shows "output_path (before @ ''shaders'' @ rest) = before @ ''bin'' @ output_path rest"
proof -
  have "\<not> str_contains ''shaders'' (before @ butlast ''shaders'')"
    using assms by simp
  then have "str_replace ''shaders'' ''bin'' (before @ ''shaders'' @ rest)
               = before @ ''bin'' @ str_replace ''shaders'' ''bin'' rest"
    by (intro str_replace_first_occ) simp_all
  then show ?thesis by (simp add: output_path_def)
qed

text \<open>
  The path \<open>myshadersdir/a.vert\<close> of the claim, where \<open>shaders\<close> lies inside a component;
  and \<open>a/shadersx/b\<close>, where it begins one.
\<close>

theorem substring_inside_component_witness:
  "\<not> str_contains ''shaders'' (''my'' @ ''shader'')
   \<and> output_path ''myshadersdir/a.vert'' = ''mybindir/a.vert.spv''
   \<and> \<not> str_contains ''shaders'' (''a/'' @ ''shader'')
   \<and> output_path ''a/shadersx/b'' = ''a/binx/b.spv''"
  using substring_inside_component [of "''my''" "''dir/a.vert''"]
    substring_inside_component [of "''a/''" "''x/b''"]
  by (simp add: output_path_def)

text \<open>
  C10. When the earlier paths have been handled, the next path is a file and starting
  the compiler on it raises an \<open>OSError\<close>, the exception is not caught: the run ends
  there with exit status 1, whatever paths remain, and none of them is looked at.
\<close>

theorem start_failure_propagates:
  assumes "for_loop P w before = (Inr (), tr0, w0)"
    and "os_path_isfile P w0 p"
    and "popen_wait P w0 (command p) = (StartFailed d, w1)"
  shows "main P w (prog # before @ p # rest) =
           (Inl (OSError d), tr0 @ [IsFile p True, Run (command p) (StartFailed d)], w1)
         \<and> exit_status (outcome (main P w (prog # before @ p # rest))) = 1"
  unfolding main_after_prefix[OF assms(1)] for_loop_start_failed[OF assms(2,3)]
  by simp

text \<open>
  No \<open>glslc\<close> installed: the run ends at the first path that is a file.
\<close>

theorem start_failure_propagates_witness:
  "for_loop no_glslc_platform [''shaders/a.vert'', ''shaders/b.vert''] [''shaders/missing.vert'']
     = (Inr (),
        [IsFile ''shaders/missing.vert'' False, Print ''File not found: shaders/missing.vert''],
        [''shaders/a.vert'', ''shaders/b.vert''])
   \<and> os_path_isfile no_glslc_platform [''shaders/a.vert'', ''shaders/b.vert''] ''shaders/a.vert''
   \<and> popen_wait no_glslc_platform [''shaders/a.vert'', ''shaders/b.vert'']
         (command ''shaders/a.vert'')
       = (StartFailed ''No such file or directory'', [''shaders/a.vert'', ''shaders/b.vert''])
   \<and> main no_glslc_platform [''shaders/a.vert'', ''shaders/b.vert'']
         [''compile_shaders.py'', ''shaders/missing.vert'', ''shaders/a.vert'', ''shaders/b.vert'']
     = (Inl (OSError ''No such file or directory''),
        [IsFile ''shaders/missing.vert'' False, Print ''File not found: shaders/missing.vert'',
         IsFile ''shaders/a.vert'' True,
         Run [''glslc'', ''shaders/a.vert'', ''-o'', ''bin/a.vert.spv'']
           (StartFailed ''No such file or directory'')],
        [''shaders/a.vert'', ''shaders/b.vert''])
   \<and> exit_status (outcome (main no_glslc_platform [''shaders/a.vert'', ''shaders/b.vert'']
         [''compile_shaders.py'', ''shaders/missing.vert'', ''shaders/a.vert'', ''shaders/b.vert'']))
       = 1"
  using start_failure_propagates
    [where P = no_glslc_platform and w = "[''shaders/a.vert'', ''shaders/b.vert'']"
       and before = "[''shaders/missing.vert'']" and p = "''shaders/a.vert''"
       and prog = "''compile_shaders.py''" and rest = "[''shaders/b.vert'']"]
  by (simp add: run_defs)

end
